theory Spec2Isabelle
  imports Complex_Main
begin

section \<open>Modelling conventions\<close>

text \<open>
  The engine is Python. Its floats are modelled as \<^typ>\<open>real\<close> (finite values, exact
  arithmetic); the one infinite value the code uses, the initial \<open>min_rtt = float('inf')\<close>
  of BBR, is a constructor of its own. Python's unbounded integers are \<^typ>\<open>int\<close>.
  Every call of \<open>time.time()\<close> inside one method call is modelled by the argument
  \<open>now\<close> of that call: an event is treated as instantaneous. A division whose divisor
  is not a non-zero literal goes through \<open>truediv\<close>, which raises as Python does.
\<close>

datatype error = ZeroDivisionError | TypeError

definition truediv :: "real \<Rightarrow> real \<Rightarrow> error + real" where
  "truediv a b = (if b = 0 then Inl ZeroDivisionError else Inr (a / b))"

definition ebind :: "error + 'a \<Rightarrow> ('a \<Rightarrow> error + 'b) \<Rightarrow> error + 'b" where
  "ebind m f = (case m of Inl e \<Rightarrow> Inl e | Inr v \<Rightarrow> f v)"

text \<open>Truth value of an optional float argument (\<open>if rtt:\<close>): absent and 0 are false.\<close>

definition truthy :: "real option \<Rightarrow> bool" where
  "truthy v = (case v of None \<Rightarrow> False | Some x \<Rightarrow> x \<noteq> 0)"

text \<open>The slice \<open>xs[-k:]\<close> for a positive literal \<open>k\<close>.\<close>

definition lastn :: "nat \<Rightarrow> 'a list \<Rightarrow> 'a list" where
  "lastn k xs = drop (length xs - k) xs"

section \<open>Tahoe, Reno and Cubic\<close>

text \<open>The \<open>state\<close> strings of the three loss-based algorithms.\<close>

datatype phase = slow_start | congestion_avoidance | fast_recovery

record tahoe =
  cwnd :: real
  ssthresh :: real
  state :: phase
  duplicate_acks :: int
  last_ack :: int

definition TahoeAlgorithm_init :: tahoe where
  "TahoeAlgorithm_init =
     \<lparr>tahoe.cwnd = 1, tahoe.ssthresh = 65535, tahoe.state = slow_start,
      tahoe.duplicate_acks = 0, tahoe.last_ack = 0\<rparr>"

definition tahoe_on_ack_received :: "tahoe \<Rightarrow> int \<Rightarrow> error + tahoe" where
  "tahoe_on_ack_received a ack_num =
     (if tahoe.state a = slow_start then
        (let a1 = a\<lparr>tahoe.cwnd := tahoe.cwnd a + 1\<rparr>
         in if tahoe.cwnd a1 \<ge> tahoe.ssthresh a1
            then Inr (a1\<lparr>tahoe.state := congestion_avoidance\<rparr>) else Inr a1)
      else if tahoe.state a = congestion_avoidance then
        ebind (truediv 1 (tahoe.cwnd a)) (\<lambda>q. Inr (a\<lparr>tahoe.cwnd := tahoe.cwnd a + q\<rparr>))
      else Inr a)"

definition tahoe_on_timeout :: "tahoe \<Rightarrow> tahoe" where
  "tahoe_on_timeout a =
     a\<lparr>tahoe.ssthresh := max (tahoe.cwnd a / 2) 2, tahoe.cwnd := 1,
       tahoe.state := slow_start\<rparr>"

record reno =
  cwnd :: real
  ssthresh :: real
  state :: phase
  duplicate_acks :: int
  recover :: int

definition RenoAlgorithm_init :: reno where
  "RenoAlgorithm_init =
     \<lparr>reno.cwnd = 1, reno.ssthresh = 65535, reno.state = slow_start,
      reno.duplicate_acks = 0, reno.recover = 0\<rparr>"

definition enter_fast_recovery :: "reno \<Rightarrow> int \<Rightarrow> reno" where
  "enter_fast_recovery r ack_num =
     (let r1 = r\<lparr>reno.ssthresh := max (reno.cwnd r / 2) 2\<rparr>;
          r2 = r1\<lparr>reno.cwnd := reno.ssthresh r1 + 3\<rparr>
      in r2\<lparr>reno.state := fast_recovery, reno.recover := ack_num\<rparr>)"

definition reno_on_ack_received :: "reno \<Rightarrow> int \<Rightarrow> error + reno" where
  "reno_on_ack_received r ack_num =
     (if reno.state r = fast_recovery then
        (if ack_num > reno.recover r
         then Inr (r\<lparr>reno.cwnd := reno.ssthresh r, reno.state := congestion_avoidance,
                     reno.duplicate_acks := 0\<rparr>)
         else Inr (r\<lparr>reno.cwnd := reno.cwnd r + 1\<rparr>))
      else if reno.duplicate_acks r \<ge> 3 then Inr (enter_fast_recovery r ack_num)
      else if reno.state r = slow_start then
        (let r1 = r\<lparr>reno.cwnd := reno.cwnd r + 1\<rparr>
         in if reno.cwnd r1 \<ge> reno.ssthresh r1
            then Inr (r1\<lparr>reno.state := congestion_avoidance\<rparr>) else Inr r1)
      else if reno.state r = congestion_avoidance then
        ebind (truediv 1 (reno.cwnd r)) (\<lambda>q. Inr (r\<lparr>reno.cwnd := reno.cwnd r + q\<rparr>))
      else Inr r)"

text \<open>A run of acks delivered to one Reno object; an exception ends it.\<close>

fun reno_run :: "reno \<Rightarrow> int list \<Rightarrow> error + reno" where
  "reno_run r [] = Inr r"
| "reno_run r (ack_num # acks) =
     ebind (reno_on_ack_received r ack_num) (\<lambda>r'. reno_run r' acks)"

text \<open>
  The value of \<open>x ** (1/3)\<close>: a float for a base that is not negative, a complex number
  for a negative one. The complex value is kept only as a tag: comparing it with a
  float raises \<open>TypeError\<close>.
\<close>

datatype pyvalue = FloatVal real | ComplexVal

definition pow_third :: "real \<Rightarrow> pyvalue" where
  "pow_third x = (if 0 \<le> x then FloatVal (root 3 x) else ComplexVal)"

record cubic =
  cwnd :: real
  ssthresh :: real
  state :: phase
  wmax :: real
  epoch_start :: real
  origin_point :: pyvalue

text \<open>The attributes \<open>c\<close> and \<open>beta\<close> are set by the constructor and never assigned again.\<close>

definition cubic_c :: real where
  "cubic_c = 0.4"

definition cubic_beta :: real where
  "cubic_beta = 0.7"

definition CubicAlgorithm_init :: cubic where
  "CubicAlgorithm_init =
     \<lparr>cubic.cwnd = 1, cubic.ssthresh = 65535, cubic.state = slow_start,
      cubic.wmax = 0, cubic.epoch_start = 0, cubic.origin_point = FloatVal 0\<rparr>"

definition cubic_function :: "cubic \<Rightarrow> real \<Rightarrow> error + real" where
  "cubic_function a t =
     (case cubic.origin_point a of
        FloatVal p \<Rightarrow> Inr (cubic_c * ((t - p) ^ 3) + cubic.wmax a)
      | ComplexVal \<Rightarrow> Inl TypeError)"

definition cubic_on_ack_received :: "cubic \<Rightarrow> int \<Rightarrow> real \<Rightarrow> error + cubic" where
  "cubic_on_ack_received a ack_num now =
     (if cubic.state a = slow_start then
        (let a1 = a\<lparr>cubic.cwnd := cubic.cwnd a + 1\<rparr>
         in if cubic.cwnd a1 \<ge> cubic.ssthresh a1
            then Inr (a1\<lparr>cubic.state := congestion_avoidance, cubic.epoch_start := now\<rparr>)
            else Inr a1)
      else if cubic.state a = congestion_avoidance then
        ebind (cubic_function a (now - cubic.epoch_start a)) (\<lambda>target_cwnd.
          ebind (truediv 1 (cubic.cwnd a)) (\<lambda>q.
            if target_cwnd > cubic.cwnd a
            then Inr (a\<lparr>cubic.cwnd := min target_cwnd (cubic.cwnd a + q)\<rparr>)
            else Inr (a\<lparr>cubic.cwnd := cubic.cwnd a + q\<rparr>)))
      else Inr a)"

definition cubic_on_loss_detected :: "cubic \<Rightarrow> real \<Rightarrow> cubic" where
  "cubic_on_loss_detected a now =
     (let a1 = a\<lparr>cubic.wmax := cubic.cwnd a\<rparr>;
          a2 = a1\<lparr>cubic.cwnd := cubic.cwnd a1 * cubic_beta\<rparr>;
          a3 = a2\<lparr>cubic.ssthresh := cubic.cwnd a2\<rparr>;
          a4 = a3\<lparr>cubic.state := congestion_avoidance, cubic.epoch_start := now\<rparr>
      in a4\<lparr>cubic.origin_point := pow_third (cubic.wmax a4 * (1 - cubic_beta) / cubic_c)\<rparr>)"

section \<open>BBR\<close>

datatype bbr_state = STARTUP | DRAIN | PROBE_BW | PROBE_RTT

text \<open>The value of \<open>min_rtt\<close>: \<open>float('inf')\<close> until the first sample is taken.\<close>

datatype rtt_value = PosInf | Fin real

record bbr =
  bw_estimate :: real
  min_rtt :: rtt_value
  rtprop_stamp :: real
  probe_rtt_done_stamp :: real
  pacing_rate :: real
  cwnd :: real
  ssthresh :: real
  state :: bbr_state
  cycle_index :: nat
  cycle_stamp :: real
  prior_cwnd :: real
  pacing_gain :: real
  packet_count :: int
  delivered :: real
  delivery_rate :: real
  round_start :: bool
  full_bw_reached :: bool
  full_bw :: real
  full_bw_count :: int

text \<open>Configuration attributes, set by the constructor and never assigned again.\<close>

definition bbr_high_gain :: real where
  "bbr_high_gain = 2.885"

definition bbr_drain_gain :: real where
  "bbr_drain_gain = 1 / 2.885"

definition bbr_cwnd_gain :: real where
  "bbr_cwnd_gain = 2"

definition bbr_probe_rtt_time :: real where
  "bbr_probe_rtt_time = 0.2"

definition bbr_rtprop_filterlen :: real where
  "bbr_rtprop_filterlen = 10"

definition pacing_gain_cycle :: "real list" where
  "pacing_gain_cycle = [1.25, 0.75, 1, 1, 1, 1, 1, 1]"

definition BBRAlgorithm_init :: bbr where
  "BBRAlgorithm_init =
     \<lparr>bw_estimate = 1000000, min_rtt = PosInf, rtprop_stamp = 0, probe_rtt_done_stamp = 0,
      pacing_rate = 1000000, bbr.cwnd = 10, bbr.ssthresh = 65535, bbr.state = STARTUP,
      cycle_index = 0, cycle_stamp = 0, prior_cwnd = 0, pacing_gain = 1, packet_count = 0,
      delivered = 0, delivery_rate = 0, round_start = True, full_bw_reached = False,
      full_bw = 0, full_bw_count = 0\<rparr>"

definition update_bandwidth_estimate :: "bbr \<Rightarrow> real \<Rightarrow> real \<Rightarrow> error + bbr" where
  "update_bandwidth_estimate b delivered_bytes elapsed_time =
     (if elapsed_time > 0 then
        ebind (truediv delivered_bytes elapsed_time) (\<lambda>current_bw.
          if current_bw > bw_estimate b \<or> elapsed_time > 1
          then Inr (b\<lparr>bw_estimate := current_bw\<rparr>) else Inr b)
      else Inr b)"

text \<open>\<open>rtt < self.min_rtt\<close>: every finite sample is below \<open>inf\<close>.\<close>

definition below_min_rtt :: "real \<Rightarrow> rtt_value \<Rightarrow> bool" where
  "below_min_rtt rtt m = (case m of PosInf \<Rightarrow> True | Fin v \<Rightarrow> rtt < v)"

definition update_min_rtt :: "bbr \<Rightarrow> real \<Rightarrow> real \<Rightarrow> bbr" where
  "update_min_rtt b rtt now =
     (if below_min_rtt rtt (min_rtt b) \<or> now - rtprop_stamp b > bbr_rtprop_filterlen
      then b\<lparr>min_rtt := Fin rtt, rtprop_stamp := now\<rparr> else b)"

definition check_startup_done :: "bbr \<Rightarrow> bool \<times> bbr" where
  "check_startup_done b =
     (if full_bw_reached b then (True, b)
      else
        (let b1 = (if bw_estimate b \<ge> full_bw b * 1.25
                   then b\<lparr>full_bw := bw_estimate b, full_bw_count := 0\<rparr>
                   else b\<lparr>full_bw_count := full_bw_count b + 1\<rparr>)
         in if full_bw_count b1 \<ge> 3 then (True, b1\<lparr>full_bw_reached := True\<rparr>)
            else (False, b1)))"

definition set_pacing_rate :: "bbr \<Rightarrow> bbr" where
  "set_pacing_rate b = b\<lparr>pacing_rate := max (bw_estimate b * pacing_gain b) 1000\<rparr>"

definition set_cwnd :: "bbr \<Rightarrow> bbr" where
  "set_cwnd b =
     (case min_rtt b of
        PosInf \<Rightarrow> b
      | Fin m \<Rightarrow>
          (let bdp = bw_estimate b * m;
               b1 = b\<lparr>bbr.cwnd := max (bdp * bbr_cwnd_gain) 4\<rparr>
           in if bbr.state b1 = PROBE_RTT then b1\<lparr>bbr.cwnd := max 4 bdp\<rparr> else b1))"

text \<open>\<open>current_time - self.cycle_stamp > self.min_rtt\<close>: nothing finite is above \<open>inf\<close>.\<close>

definition above_min_rtt :: "real \<Rightarrow> rtt_value \<Rightarrow> bool" where
  "above_min_rtt d m = (case m of PosInf \<Rightarrow> False | Fin v \<Rightarrow> d > v)"

definition advance_cycle_phase :: "bbr \<Rightarrow> real \<Rightarrow> bbr" where
  "advance_cycle_phase b now =
     (if above_min_rtt (now - cycle_stamp b) (min_rtt b) then
        (let i = (cycle_index b + 1) mod length pacing_gain_cycle
         in b\<lparr>cycle_index := i, pacing_gain := pacing_gain_cycle ! i, cycle_stamp := now\<rparr>)
      else b)"

definition check_probe_rtt :: "bbr \<Rightarrow> real \<Rightarrow> bbr" where
  "check_probe_rtt b now =
     (if bbr.state b \<noteq> PROBE_RTT \<and> now - rtprop_stamp b > bbr_rtprop_filterlen
      then b\<lparr>bbr.state := PROBE_RTT, pacing_gain := 1, prior_cwnd := bbr.cwnd b,
               probe_rtt_done_stamp := now + bbr_probe_rtt_time\<rparr>
      else b)"

definition handle_probe_rtt :: "bbr \<Rightarrow> real \<Rightarrow> bbr" where
  "handle_probe_rtt b now =
     (if now \<ge> probe_rtt_done_stamp b then
        (let b1 = b\<lparr>rtprop_stamp := now\<rparr>;
             b2 = (if prior_cwnd b1 > 0
                   then b1\<lparr>bbr.cwnd := max (bbr.cwnd b1) (prior_cwnd b1)\<rparr> else b1)
         in b2\<lparr>bbr.state := PROBE_BW, cycle_index := 0,
                pacing_gain := pacing_gain_cycle ! 0, cycle_stamp := now\<rparr>)
      else b)"

text \<open>
  \<open>self.cwnd <= self.bw_estimate * self.min_rtt\<close>. With \<open>min_rtt = inf\<close> the product is
  \<open>inf\<close> for a positive estimate, \<open>-inf\<close> for a negative one and \<open>nan\<close> for 0, so the
  comparison holds exactly for a positive estimate.
\<close>

definition cwnd_within_bdp :: "bbr \<Rightarrow> bool" where
  "cwnd_within_bdp b =
     (case min_rtt b of PosInf \<Rightarrow> bw_estimate b > 0 | Fin m \<Rightarrow> bbr.cwnd b \<le> bw_estimate b * m)"

definition bbr_state_machine :: "bbr \<Rightarrow> real \<Rightarrow> bbr" where
  "bbr_state_machine b now =
     (if bbr.state b = STARTUP then
        (case check_startup_done (b\<lparr>pacing_gain := bbr_high_gain\<rparr>) of
           (done, b1) \<Rightarrow>
             if done then b1\<lparr>bbr.state := DRAIN, pacing_gain := bbr_drain_gain\<rparr> else b1)
      else if bbr.state b = DRAIN then
        (if cwnd_within_bdp b
         then b\<lparr>bbr.state := PROBE_BW, cycle_index := 0, pacing_gain := 1, cycle_stamp := now\<rparr>
         else b)
      else if bbr.state b = PROBE_BW then advance_cycle_phase b now
      else b)"

definition bbr_on_ack_received ::
  "bbr \<Rightarrow> int \<Rightarrow> real option \<Rightarrow> real \<Rightarrow> real \<Rightarrow> real \<Rightarrow> error + bbr" where
  "bbr_on_ack_received b ack_num rtt delivered_bytes elapsed_time now =
     (let b1 = (if truthy rtt then update_min_rtt b (the rtt) now else b)
      in ebind (if elapsed_time > 0
                then update_bandwidth_estimate b1 delivered_bytes elapsed_time else Inr b1)
           (\<lambda>b2.
              let b3 = bbr_state_machine b2 now;
                  b4 = check_probe_rtt b3 now;
                  b5 = (if bbr.state b4 = PROBE_RTT then handle_probe_rtt b4 now else b4);
                  b6 = set_cwnd (set_pacing_rate b5)
              in Inr (b6\<lparr>packet_count := packet_count b6 + 1\<rparr>)))"

definition bbr_on_loss_detected :: "bbr \<Rightarrow> bbr" where
  "bbr_on_loss_detected b = b"

text \<open>One ack event of BBR: the arguments of \<open>on_ack_received\<close> and the clock reading.\<close>

record bbr_ack =
  ev_ack_num :: int
  ev_rtt :: "real option"
  ev_delivered_bytes :: real
  ev_elapsed_time :: real
  ev_time :: real

fun bbr_run :: "bbr \<Rightarrow> bbr_ack list \<Rightarrow> error + bbr" where
  "bbr_run b [] = Inr b"
| "bbr_run b (e # es) =
     ebind (bbr_on_ack_received b (ev_ack_num e) (ev_rtt e) (ev_delivered_bytes e)
              (ev_elapsed_time e) (ev_time e))
       (\<lambda>b'. bbr_run b' es)"

section \<open>The adaptive controller\<close>

datatype AlgorithmType = RENO | CUBIC | TAHOE | BBR

datatype NetworkCondition = EXCELLENT | GOOD | CONGESTED | LOSSY | HIGH_BW

text \<open>The object held in \<open>self.algorithm\<close>, one class per constructor.\<close>

datatype algorithm =
  RenoAlgorithm reno | CubicAlgorithm cubic | TahoeAlgorithm tahoe | BBRAlgorithm bbr

record performance =
  switches :: int
  total_time :: real
  performance_score :: real

record controller =
  algorithm_type :: AlgorithmType
  algorithm :: algorithm
  packets_sent :: int
  packets_lost :: int
  rtt_history :: "real list"
  bandwidth_history :: "real list"
  start_time :: real
  last_switch_time :: real
  algorithm_performance :: "AlgorithmType \<Rightarrow> performance"

text \<open>Thresholds, set by the constructor and never assigned again.\<close>

definition switch_cooldown :: real where
  "switch_cooldown = 10"

definition rtt_threshold_high :: real where
  "rtt_threshold_high = 100"

definition rtt_threshold_excellent :: real where
  "rtt_threshold_excellent = 20"

definition loss_threshold_high :: real where
  "loss_threshold_high = 0.02"

definition loss_threshold_low :: real where
  "loss_threshold_low = 0.001"

definition bandwidth_threshold_high :: real where
  "bandwidth_threshold_high = 10 * 1024 * 1024"

definition initialize_algorithm :: "AlgorithmType \<Rightarrow> algorithm" where
  "initialize_algorithm t =
     (case t of
        RENO \<Rightarrow> RenoAlgorithm RenoAlgorithm_init
      | CUBIC \<Rightarrow> CubicAlgorithm CubicAlgorithm_init
      | TAHOE \<Rightarrow> TahoeAlgorithm TahoeAlgorithm_init
      | BBR \<Rightarrow> BBRAlgorithm BBRAlgorithm_init)"

definition controller_init :: "AlgorithmType \<Rightarrow> real \<Rightarrow> controller" where
  "controller_init initial_algorithm now =
     \<lparr>algorithm_type = initial_algorithm,
      algorithm = initialize_algorithm initial_algorithm,
      packets_sent = 0, packets_lost = 0, rtt_history = [], bandwidth_history = [],
      start_time = now, last_switch_time = now,
      algorithm_performance =
        (\<lambda>_. \<lparr>switches = 0, total_time = 0, performance_score = 0\<rparr>)\<rparr>"

text \<open>The attributes \<open>cwnd\<close> and \<open>ssthresh\<close>, which every algorithm class has.\<close>

definition get_current_cwnd :: "algorithm \<Rightarrow> real" where
  "get_current_cwnd a =
     (case a of RenoAlgorithm r \<Rightarrow> reno.cwnd r | CubicAlgorithm c \<Rightarrow> cubic.cwnd c
      | TahoeAlgorithm t \<Rightarrow> tahoe.cwnd t | BBRAlgorithm b \<Rightarrow> bbr.cwnd b)"

definition get_ssthresh :: "algorithm \<Rightarrow> real" where
  "get_ssthresh a =
     (case a of RenoAlgorithm r \<Rightarrow> reno.ssthresh r | CubicAlgorithm c \<Rightarrow> cubic.ssthresh c
      | TahoeAlgorithm t \<Rightarrow> tahoe.ssthresh t | BBRAlgorithm b \<Rightarrow> bbr.ssthresh b)"

definition assign_cwnd :: "algorithm \<Rightarrow> real \<Rightarrow> algorithm" where
  "assign_cwnd a v =
     (case a of RenoAlgorithm r \<Rightarrow> RenoAlgorithm (r\<lparr>reno.cwnd := v\<rparr>)
      | CubicAlgorithm c \<Rightarrow> CubicAlgorithm (c\<lparr>cubic.cwnd := v\<rparr>)
      | TahoeAlgorithm t \<Rightarrow> TahoeAlgorithm (t\<lparr>tahoe.cwnd := v\<rparr>)
      | BBRAlgorithm b \<Rightarrow> BBRAlgorithm (b\<lparr>bbr.cwnd := v\<rparr>))"

definition assign_ssthresh :: "algorithm \<Rightarrow> real \<Rightarrow> algorithm" where
  "assign_ssthresh a v =
     (case a of RenoAlgorithm r \<Rightarrow> RenoAlgorithm (r\<lparr>reno.ssthresh := v\<rparr>)
      | CubicAlgorithm c \<Rightarrow> CubicAlgorithm (c\<lparr>cubic.ssthresh := v\<rparr>)
      | TahoeAlgorithm t \<Rightarrow> TahoeAlgorithm (t\<lparr>tahoe.ssthresh := v\<rparr>)
      | BBRAlgorithm b \<Rightarrow> BBRAlgorithm (b\<lparr>bbr.ssthresh := v\<rparr>))"

definition get_packet_loss_rate :: "controller \<Rightarrow> error + real" where
  "get_packet_loss_rate s =
     (if packets_sent s = 0 then Inr 0
      else truediv (real_of_int (packets_lost s)) (real_of_int (packets_sent s)))"

definition detect_network_condition :: "controller \<Rightarrow> error + NetworkCondition" where
  "detect_network_condition s =
     (if length (rtt_history s) < 5 then Inr GOOD
      else
        ebind (truediv (sum_list (lastn 10 (rtt_history s)))
                 (real (min (length (rtt_history s)) 10))) (\<lambda>recent_rtt.
        ebind (get_packet_loss_rate s) (\<lambda>loss_rate.
        ebind (if bandwidth_history s \<noteq> []
               then truediv (sum_list (lastn 5 (bandwidth_history s)))
                      (real (min (length (bandwidth_history s)) 5))
               else Inr 0) (\<lambda>recent_bandwidth.
          if loss_rate > loss_threshold_high then Inr LOSSY
          else if recent_rtt > rtt_threshold_high then
            (if recent_bandwidth > bandwidth_threshold_high then Inr HIGH_BW
             else Inr CONGESTED)
          else if recent_rtt < rtt_threshold_excellent \<and> loss_rate < loss_threshold_low
            then Inr EXCELLENT
          else Inr GOOD))))"

definition get_optimal_algorithm :: "NetworkCondition \<Rightarrow> AlgorithmType" where
  "get_optimal_algorithm condition =
     (case condition of
        EXCELLENT \<Rightarrow> BBR
      | GOOD \<Rightarrow> CUBIC
      | CONGESTED \<Rightarrow> RENO
      | LOSSY \<Rightarrow> TAHOE
      | HIGH_BW \<Rightarrow> CUBIC)"

definition should_switch_algorithm :: "controller \<Rightarrow> AlgorithmType \<Rightarrow> real \<Rightarrow> bool" where
  "should_switch_algorithm s target_algorithm now =
     (if now - last_switch_time s < switch_cooldown then False
      else if target_algorithm = algorithm_type s then False
      else
        (let current_perf = performance_score (algorithm_performance s (algorithm_type s));
             target_perf = performance_score (algorithm_performance s target_algorithm)
         in if target_perf > current_perf * 1.1 \<or> current_perf < 0.5 then True
            else True))"

definition calculate_rtt_variance :: "controller \<Rightarrow> error + real" where
  "calculate_rtt_variance s =
     (if length (rtt_history s) < 3 then Inr 0
      else
        (let recent_rtts = lastn 10 (rtt_history s)
         in ebind (truediv (sum_list recent_rtts) (real (length recent_rtts))) (\<lambda>mean_rtt.
            ebind (truediv (sum_list (map (\<lambda>rtt. (rtt - mean_rtt) ^ 2) recent_rtts))
                     (real (length recent_rtts))) (\<lambda>variance.
              Inr (sqrt variance)))))"

definition calculate_performance_score :: "controller \<Rightarrow> error + real" where
  "calculate_performance_score s =
     (if packets_sent s = 0 then Inr 0.5
      else
        ebind (get_packet_loss_rate s) (\<lambda>loss_rate.
        ebind (if bandwidth_history s \<noteq> []
               then truediv (sum_list (lastn 10 (bandwidth_history s)))
                      (real (min (length (bandwidth_history s)) 10))
               else Inr 0) (\<lambda>avg_bandwidth.
        ebind (calculate_rtt_variance s) (\<lambda>deviation.
        ebind (truediv 1 (1 + deviation)) (\<lambda>rtt_stability.
          (let throughput_score = min (avg_bandwidth / 1000000) 1;
               loss_penalty = 1 - min (loss_rate * 50) 1;
               stability_score = rtt_stability
           in Inr (throughput_score * 0.5 + loss_penalty * 0.3 + stability_score * 0.2)))))))"

definition switch_algorithm :: "controller \<Rightarrow> AlgorithmType \<Rightarrow> real \<Rightarrow> controller" where
  "switch_algorithm s new_algorithm now =
     (if new_algorithm = algorithm_type s then s
      else
        (let old_algorithm = algorithm_type s;
             current_cwnd = get_current_cwnd (algorithm s);
             current_ssthresh = get_ssthresh (algorithm s);
             p0 = algorithm_performance s;
             p1 = p0(old_algorithm := (p0 old_algorithm)
                    \<lparr>total_time := total_time (p0 old_algorithm) + (now - last_switch_time s)\<rparr>);
             p2 = p1(new_algorithm := (p1 new_algorithm)
                    \<lparr>switches := switches (p1 new_algorithm) + 1\<rparr>);
             fresh = initialize_algorithm new_algorithm
         in s\<lparr>algorithm_performance := p2, algorithm_type := new_algorithm,
               algorithm := assign_ssthresh (assign_cwnd fresh current_cwnd) current_ssthresh,
               last_switch_time := now\<rparr>))"

definition adaptive_algorithm_switch ::
  "controller \<Rightarrow> real \<Rightarrow> real \<Rightarrow> real \<Rightarrow> error + controller" where
  "adaptive_algorithm_switch s rtt bandwidth now =
     (let s1 = s\<lparr>rtt_history := rtt_history s @ [rtt],
                 bandwidth_history := bandwidth_history s @ [bandwidth]\<rparr>;
          s2 = (if length (rtt_history s1) > 50
                then s1\<lparr>rtt_history := lastn 50 (rtt_history s1)\<rparr> else s1);
          s3 = (if length (bandwidth_history s2) > 50
                then s2\<lparr>bandwidth_history := lastn 50 (bandwidth_history s2)\<rparr> else s2)
      in ebind (calculate_performance_score s3) (\<lambda>current_score.
           (let p = algorithm_performance s3;
                s4 = s3\<lparr>algorithm_performance := p(algorithm_type s3 :=
                         (p (algorithm_type s3))\<lparr>performance_score := current_score\<rparr>)\<rparr>
            in ebind (detect_network_condition s4) (\<lambda>condition.
                 (let optimal_algorithm = get_optimal_algorithm condition
                  in if should_switch_algorithm s4 optimal_algorithm now
                     then Inr (switch_algorithm s4 optimal_algorithm now)
                     else Inr s4)))))"

text \<open>
  The call \<open>self.algorithm.on_ack_received(ack_num)\<close>. BBR takes its defaults
  \<open>rtt=None, delivered_bytes=0, elapsed_time=0\<close>.
\<close>

definition algorithm_on_ack :: "algorithm \<Rightarrow> int \<Rightarrow> real \<Rightarrow> error + algorithm" where
  "algorithm_on_ack a ack_num now =
     (case a of
        RenoAlgorithm r \<Rightarrow> map_sum id RenoAlgorithm (reno_on_ack_received r ack_num)
      | CubicAlgorithm c \<Rightarrow> map_sum id CubicAlgorithm (cubic_on_ack_received c ack_num now)
      | TahoeAlgorithm t \<Rightarrow> map_sum id TahoeAlgorithm (tahoe_on_ack_received t ack_num)
      | BBRAlgorithm b \<Rightarrow> map_sum id BBRAlgorithm (bbr_on_ack_received b ack_num None 0 0 now))"

text \<open>
  The call with the keywords \<open>rtt\<close>, \<open>delivered_bytes\<close> and \<open>elapsed_time\<close>, made when
  \<open>algorithm_type\<close> is BBR: only \<open>BBRAlgorithm.on_ack_received\<close> accepts them.
\<close>

definition algorithm_on_ack_bbr :: "algorithm \<Rightarrow> int \<Rightarrow> real option \<Rightarrow> real \<Rightarrow> error + algorithm" where
  "algorithm_on_ack_bbr a ack_num rtt now =
     (case a of
        BBRAlgorithm b \<Rightarrow> map_sum id BBRAlgorithm (bbr_on_ack_received b ack_num rtt 1024 0.001 now)
      | _ \<Rightarrow> Inl TypeError)"

definition on_ack_received ::
  "controller \<Rightarrow> int \<Rightarrow> real option \<Rightarrow> real option \<Rightarrow> real \<Rightarrow> error + controller" where
  "on_ack_received s ack_num rtt bandwidth now =
     ebind (if algorithm_type s = BBR \<and> truthy rtt \<and> truthy bandwidth
            then algorithm_on_ack_bbr (algorithm s) ack_num rtt now
            else algorithm_on_ack (algorithm s) ack_num now) (\<lambda>a.
       (let s1 = s\<lparr>algorithm := a\<rparr>
        in if truthy rtt \<and> truthy bandwidth
           then adaptive_algorithm_switch s1 (the rtt) (the bandwidth) now
           else Inr s1))"

text \<open>
  \<open>on_loss_detected\<close> of the controller: Cubic and BBR have \<open>on_loss_detected\<close>, Tahoe
  has only \<open>on_timeout\<close>, Reno has neither.
\<close>

definition on_loss_detected :: "controller \<Rightarrow> real \<Rightarrow> controller" where
  "on_loss_detected s now =
     (let s1 = s\<lparr>packets_lost := packets_lost s + 1\<rparr>
      in case algorithm s1 of
           RenoAlgorithm r \<Rightarrow> s1
         | CubicAlgorithm c \<Rightarrow> s1\<lparr>algorithm := CubicAlgorithm (cubic_on_loss_detected c now)\<rparr>
         | TahoeAlgorithm t \<Rightarrow> s1\<lparr>algorithm := TahoeAlgorithm (tahoe_on_timeout t)\<rparr>
         | BBRAlgorithm b \<Rightarrow> s1\<lparr>algorithm := BBRAlgorithm (bbr_on_loss_detected b)\<rparr>)"

definition on_data_sent :: "controller \<Rightarrow> int \<Rightarrow> controller" where
  "on_data_sent s bytes_sent = s\<lparr>packets_sent := packets_sent s + 1\<rparr>"

section \<open>Runs of one controller\<close>

datatype event =
  Ack int "real option" "real option"
  | Loss
  | DataSent int
  | ManualSwitch AlgorithmType

definition step :: "controller \<Rightarrow> real \<Rightarrow> event \<Rightarrow> error + controller" where
  "step s now e =
     (case e of
        Ack ack_num rtt bandwidth \<Rightarrow> on_ack_received s ack_num rtt bandwidth now
      | Loss \<Rightarrow> Inr (on_loss_detected s now)
      | DataSent n \<Rightarrow> Inr (on_data_sent s n)
      | ManualSwitch t \<Rightarrow> Inr (switch_algorithm s t now))"

text \<open>The states a controller can be in: its constructor, then any of its operations.\<close>

inductive reachable :: "controller \<Rightarrow> bool" where
  reachable_init: "reachable (controller_init t now)"
| reachable_step: "reachable s \<Longrightarrow> step s now e = Inr s' \<Longrightarrow> reachable s'"

text \<open>
  The switches of a run: for each event that changed the active algorithm kind, the time
  of the event and whether it was a manual \<open>switch_algorithm\<close> call. An exception ends the
  run.
\<close>

definition is_manual :: "event \<Rightarrow> bool" where
  "is_manual e = (case e of ManualSwitch _ \<Rightarrow> True | _ \<Rightarrow> False)"

fun switch_log :: "controller \<Rightarrow> (real \<times> event) list \<Rightarrow> (real \<times> bool) list" where
  "switch_log s [] = []"
| "switch_log s ((now, e) # es) =
     (case step s now e of
        Inl _ \<Rightarrow> []
      | Inr s' \<Rightarrow>
          (if algorithm_type s' \<noteq> algorithm_type s then [(now, is_manual e)] else [])
          @ switch_log s' es)"

text \<open>The cooldown as claimed: consecutive switches are at least 10 seconds apart.\<close>

fun gaps_ok :: "real list \<Rightarrow> bool" where
  "gaps_ok (a # b # ts) = (b - a \<ge> 10 \<and> gaps_ok (b # ts))"
| "gaps_ok _ = True"

text \<open>
  The cooldown as the code keeps it: every switch that is not manual comes at least 10
  seconds after the switch before it (after \<open>prev\<close>, for the first one).
\<close>

fun auto_gaps_ok :: "real \<Rightarrow> (real \<times> bool) list \<Rightarrow> bool" where
  "auto_gaps_ok prev [] = True"
| "auto_gaps_ok prev ((t, manual) # xs) = ((manual \<or> t - prev \<ge> 10) \<and> auto_gaps_ok t xs)"

section \<open>Specification-side notions\<close>

text \<open>
  The derived loss rate of the classifier, \<open>packets_lost / packets_sent\<close>, taken as 0
  when nothing was sent.
\<close>

definition loss_rate_of :: "controller \<Rightarrow> real" where
  "loss_rate_of s =
     (if packets_sent s = 0 then 0
      else real_of_int (packets_lost s) / real_of_int (packets_sent s))"

text \<open>
  The average of the last (at most) \<open>k\<close> samples of a history, taken as 0 for an
  empty history.
\<close>

definition mean_last :: "nat \<Rightarrow> real list \<Rightarrow> real" where
  "mean_last k xs =
     (if xs = [] then 0 else sum_list (lastn k xs) / real (length (lastn k xs)))"

text \<open>
  The value of \<open>max(4.0, bw_estimate * min_rtt)\<close> as Python computes it, also for
  \<open>min_rtt = inf\<close>: the product is then \<open>inf\<close> for a positive estimate, and \<open>-inf\<close> or
  \<open>nan\<close> otherwise, which \<open>max\<close> with first argument 4.0 answers by 4.0.
\<close>

definition probe_rtt_window :: "bbr \<Rightarrow> rtt_value" where
  "probe_rtt_window b =
     (case min_rtt b of
        Fin m \<Rightarrow> Fin (max 4 (bw_estimate b * m))
      | PosInf \<Rightarrow> if bw_estimate b > 0 then PosInf else Fin 4)"

section \<open>Auxiliary lemmas\<close>

lemma ebind_simps [simp]:
  "ebind (Inr v) f = f v" "ebind (Inl e) f = Inl e"
  by (simp_all add: ebind_def)

lemma ebind_eq_Inr: "ebind m f = Inr y \<longleftrightarrow> (\<exists>v. m = Inr v \<and> f v = Inr y)"
  by (cases m) simp_all

lemma truediv_Inr: "b \<noteq> 0 \<Longrightarrow> truediv a b = Inr (a / b)"
  by (simp add: truediv_def)

lemma length_lastn: "length (lastn k xs) = min (length xs) k"
  by (simp add: lastn_def)

lemma get_packet_loss_rate_eq: "get_packet_loss_rate s = Inr (loss_rate_of s)"
  by (simp add: get_packet_loss_rate_def loss_rate_of_def truediv_def)

lemma recent_mean:
  "xs \<noteq> [] \<Longrightarrow> 0 < k \<Longrightarrow>
     truediv (sum_list (lastn k xs)) (real (min (length xs) k)) = Inr (mean_last k xs)"
  by (simp add: truediv_def mean_last_def length_lastn)

subsection \<open>What each step of BBR leaves unchanged\<close>

lemma update_bandwidth_estimate_total:
  "\<exists>b'. update_bandwidth_estimate b d e = Inr b'"
  by (simp add: update_bandwidth_estimate_def truediv_def)

lemma update_bandwidth_estimate_frame:
  assumes "update_bandwidth_estimate b d e = Inr b'"
  shows "bbr.cwnd b' = bbr.cwnd b" and "min_rtt b' = min_rtt b"
    and "rtprop_stamp b' = rtprop_stamp b" and "bbr.state b' = bbr.state b"
    and "probe_rtt_done_stamp b' = probe_rtt_done_stamp b"
  using assms
  by (auto simp: update_bandwidth_estimate_def truediv_def split: if_splits)

lemma update_min_rtt_frame:
  "bbr.cwnd (update_min_rtt b r now) = bbr.cwnd b"
  "bw_estimate (update_min_rtt b r now) = bw_estimate b"
  "bbr.state (update_min_rtt b r now) = bbr.state b"
  "probe_rtt_done_stamp (update_min_rtt b r now) = probe_rtt_done_stamp b"
  by (simp_all add: update_min_rtt_def)

lemma bbr_state_machine_frame:
  "bbr.cwnd (bbr_state_machine b now) = bbr.cwnd b"
  "min_rtt (bbr_state_machine b now) = min_rtt b"
  "rtprop_stamp (bbr_state_machine b now) = rtprop_stamp b"
  "bw_estimate (bbr_state_machine b now) = bw_estimate b"
  "probe_rtt_done_stamp (bbr_state_machine b now) = probe_rtt_done_stamp b"
  by (simp_all add: bbr_state_machine_def check_startup_done_def advance_cycle_phase_def
      Let_def split: prod.splits)

lemma bbr_state_machine_probe_rtt:
  "bbr.state (bbr_state_machine b now) = PROBE_RTT \<longleftrightarrow> bbr.state b = PROBE_RTT"
  by (auto simp: bbr_state_machine_def check_startup_done_def advance_cycle_phase_def
      Let_def split: prod.splits if_splits)

lemma check_probe_rtt_frame:
  "bbr.cwnd (check_probe_rtt b now) = bbr.cwnd b"
  "min_rtt (check_probe_rtt b now) = min_rtt b"
  "rtprop_stamp (check_probe_rtt b now) = rtprop_stamp b"
  "bw_estimate (check_probe_rtt b now) = bw_estimate b"
  by (simp_all add: check_probe_rtt_def)

lemma handle_probe_rtt_frame:
  "bbr.cwnd b \<le> bbr.cwnd (handle_probe_rtt b now)"
  "min_rtt (handle_probe_rtt b now) = min_rtt b"
  "bw_estimate (handle_probe_rtt b now) = bw_estimate b"
  by (simp_all add: handle_probe_rtt_def Let_def)

lemma set_pacing_rate_frame:
  "bbr.cwnd (set_pacing_rate b) = bbr.cwnd b"
  "min_rtt (set_pacing_rate b) = min_rtt b"
  "rtprop_stamp (set_pacing_rate b) = rtprop_stamp b"
  "bw_estimate (set_pacing_rate b) = bw_estimate b"
  "bbr.state (set_pacing_rate b) = bbr.state b"
  by (simp_all add: set_pacing_rate_def)

lemma set_cwnd_frame:
  "min_rtt (set_cwnd b) = min_rtt b"
  "rtprop_stamp (set_cwnd b) = rtprop_stamp b"
  "bw_estimate (set_cwnd b) = bw_estimate b"
  "bbr.state (set_cwnd b) = bbr.state b"
  by (simp_all add: set_cwnd_def Let_def split: rtt_value.splits)

lemma set_cwnd_floor: "4 \<le> bbr.cwnd b \<Longrightarrow> 4 \<le> bbr.cwnd (set_cwnd b)"
  by (simp add: set_cwnd_def Let_def split: rtt_value.splits)

lemma set_cwnd_probe_rtt:
  "bbr.state b = PROBE_RTT \<Longrightarrow> min_rtt b = Fin m \<Longrightarrow>
     bbr.cwnd (set_cwnd b) = max 4 (bw_estimate b * m)"
  by (simp add: set_cwnd_def Let_def)

lemma bbr_on_ack_received_total:
  "\<exists>b'. bbr_on_ack_received b a r d e now = Inr b'"
  using update_bandwidth_estimate_total [of "if truthy r then update_min_rtt b (the r) now else b" d e]
  by (auto simp: bbr_on_ack_received_def Let_def)

lemma bbr_on_ack_received_floor:
  assumes "bbr_on_ack_received b a r d e now = Inr b'" and "4 \<le> bbr.cwnd b"
  shows "4 \<le> bbr.cwnd b'"
proof -
  define b1 where "b1 = (if truthy r then update_min_rtt b (the r) now else b)"
  from assms(1) obtain b2 where
    b2: "(if e > 0 then update_bandwidth_estimate b1 d e else Inr b1) = Inr b2" and
    res: "b' = (let b3 = bbr_state_machine b2 now;
                  b4 = check_probe_rtt b3 now;
                  b5 = (if bbr.state b4 = PROBE_RTT then handle_probe_rtt b4 now else b4);
                  b6 = set_cwnd (set_pacing_rate b5)
              in b6\<lparr>packet_count := packet_count b6 + 1\<rparr>)"
    unfolding bbr_on_ack_received_def b1_def [symmetric] Let_def ebind_eq_Inr by auto
  define b4 where "b4 = check_probe_rtt (bbr_state_machine b2 now) now"
  define b5 where "b5 = (if bbr.state b4 = PROBE_RTT then handle_probe_rtt b4 now else b4)"
  have b': "bbr.cwnd b' = bbr.cwnd (set_cwnd (set_pacing_rate b5))"
    unfolding res b5_def b4_def Let_def by simp
  have "bbr.cwnd b1 = bbr.cwnd b"
    by (simp add: b1_def update_min_rtt_frame)
  moreover have "bbr.cwnd b2 = bbr.cwnd b1"
    using b2 update_bandwidth_estimate_frame(1) [of b1 d e b2] by (auto split: if_splits)
  moreover have "bbr.cwnd b4 = bbr.cwnd b2"
    by (simp add: b4_def check_probe_rtt_frame bbr_state_machine_frame)
  moreover have "bbr.cwnd b4 \<le> bbr.cwnd b5"
    by (simp add: b5_def handle_probe_rtt_frame)
  ultimately have "4 \<le> bbr.cwnd (set_pacing_rate b5)"
    using assms(2) by (simp add: set_pacing_rate_frame)
  then show ?thesis
    by (simp add: b' set_cwnd_floor)
qed

lemma bbr_on_ack_received_probe_rtt:
  assumes "bbr_on_ack_received b a r d e now = Inr b'"
    and "bbr.state b' = PROBE_RTT" and "min_rtt b' = Fin m"
  shows "bbr.cwnd b' = max 4 (bw_estimate b' * m)"
proof -
  from assms(1) obtain b5 where
    b': "b' = (set_cwnd (set_pacing_rate b5))
                 \<lparr>packet_count := packet_count (set_cwnd (set_pacing_rate b5)) + 1\<rparr>"
    by (auto simp: bbr_on_ack_received_def Let_def ebind_eq_Inr)
  have "bbr.state (set_pacing_rate b5) = PROBE_RTT" and "min_rtt (set_pacing_rate b5) = Fin m"
    using assms(2,3) by (simp_all add: b' set_cwnd_frame)
  then show ?thesis
    by (simp add: b' set_cwnd_probe_rtt set_cwnd_frame)
qed

lemmas bbr_defs =
  bbr_on_ack_received_def update_min_rtt_def update_bandwidth_estimate_def
  bbr_state_machine_def check_startup_done_def advance_cycle_phase_def check_probe_rtt_def
  handle_probe_rtt_def set_pacing_rate_def set_cwnd_def cwnd_within_bdp_def
  below_min_rtt_def above_min_rtt_def truthy_def truediv_def BBRAlgorithm_init_def
  bbr_high_gain_def bbr_drain_gain_def bbr_cwnd_gain_def bbr_probe_rtt_time_def
  bbr_rtprop_filterlen_def pacing_gain_cycle_def

subsection \<open>What each operation of the controller leaves unchanged\<close>

lemma switch_algorithm_frame:
  "packets_sent (switch_algorithm s t now) = packets_sent s"
  "packets_lost (switch_algorithm s t now) = packets_lost s"
  by (simp_all add: switch_algorithm_def Let_def)

lemma switch_algorithm_switch:
  "algorithm_type (switch_algorithm s t now) = t"
  "last_switch_time (switch_algorithm s t now)
     = (if t = algorithm_type s then last_switch_time s else now)"
  by (simp_all add: switch_algorithm_def Let_def)

lemma adaptive_algorithm_switch_cases:
  assumes "adaptive_algorithm_switch s r b now = Inr s'"
  shows "packets_sent s' = packets_sent s \<and> packets_lost s' = packets_lost s
    \<and> (if algorithm_type s' \<noteq> algorithm_type s
        then last_switch_time s' = now \<and> now - last_switch_time s \<ge> 10
        else last_switch_time s' = last_switch_time s)"
  using assms
  unfolding adaptive_algorithm_switch_def Let_def ebind_eq_Inr
  by (auto simp: switch_algorithm_frame switch_algorithm_switch should_switch_algorithm_def
      switch_cooldown_def split: if_splits)

lemma on_ack_received_cases:
  assumes "on_ack_received s a r b now = Inr s'"
  shows "packets_sent s' = packets_sent s \<and> packets_lost s' = packets_lost s
    \<and> (if algorithm_type s' \<noteq> algorithm_type s
        then last_switch_time s' = now \<and> now - last_switch_time s \<ge> 10
        else last_switch_time s' = last_switch_time s)"
proof -
  from assms obtain alg where
    rest: "(if truthy r \<and> truthy b
            then adaptive_algorithm_switch (s\<lparr>algorithm := alg\<rparr>) (the r) (the b) now
            else Inr (s\<lparr>algorithm := alg\<rparr>)) = Inr s'"
    unfolding on_ack_received_def Let_def ebind_eq_Inr by blast
  show ?thesis
  proof (cases "truthy r \<and> truthy b")
    case True
    then show ?thesis
      using rest adaptive_algorithm_switch_cases [of "s\<lparr>algorithm := alg\<rparr>" "the r" "the b" now s']
      by (auto split: if_splits)
  next
    case False
    then show ?thesis using rest by auto
  qed
qed

lemma step_cases:
  assumes "step s now e = Inr s'"
  shows "(if algorithm_type s' \<noteq> algorithm_type s
        then last_switch_time s' = now \<and> (is_manual e \<or> now - last_switch_time s \<ge> 10)
        else last_switch_time s' = last_switch_time s)"
proof (cases e)
  case (Ack a r b)
  then show ?thesis
    using assms on_ack_received_cases [of s a r b now s'] by (simp add: step_def split: if_splits)
next
  case Loss
  then show ?thesis
    using assms by (auto simp: step_def on_loss_detected_def Let_def split: algorithm.splits)
next
  case (DataSent n)
  then show ?thesis using assms by (auto simp: step_def on_data_sent_def)
next
  case (ManualSwitch t)
  then show ?thesis
    using assms by (auto simp: step_def is_manual_def switch_algorithm_switch)
qed

lemma step_packets:
  assumes "step s now e = Inr s'" and "0 \<le> packets_sent s" and "0 \<le> packets_lost s"
  shows "0 \<le> packets_sent s' \<and> 0 \<le> packets_lost s'"
proof (cases e)
  case (Ack a r b)
  then show ?thesis
    using assms on_ack_received_cases [of s a r b now s'] by (simp add: step_def)
next
  case Loss
  then show ?thesis
    using assms by (auto simp: step_def on_loss_detected_def Let_def split: algorithm.splits)
next
  case (DataSent n)
  then show ?thesis using assms by (auto simp: step_def on_data_sent_def)
next
  case (ManualSwitch t)
  then show ?thesis
    using assms by (auto simp: step_def switch_algorithm_frame)
qed

lemma reachable_packets: "reachable s \<Longrightarrow> 0 \<le> packets_sent s \<and> 0 \<le> packets_lost s"
proof (induction rule: reachable.induct)
  case (reachable_init t now)
  then show ?case by (simp add: controller_init_def)
next
  case (reachable_step s now e s')
  then show ?case using step_packets by blast
qed

lemmas controller_defs =
  step_def on_ack_received_def adaptive_algorithm_switch_def switch_algorithm_def
  should_switch_algorithm_def detect_network_condition_def calculate_performance_score_def
  get_optimal_algorithm_def controller_init_def initialize_algorithm_def
  algorithm_on_ack_def algorithm_on_ack_bbr_def reno_on_ack_received_def
  cubic_on_ack_received_def tahoe_on_ack_received_def RenoAlgorithm_init_def
  CubicAlgorithm_init_def TahoeAlgorithm_init_def get_current_cwnd_def get_ssthresh_def
  assign_cwnd_def assign_ssthresh_def truthy_def is_manual_def switch_cooldown_def
  lastn_def

section \<open>The claims\<close>

text \<open>
  Claim C1 (hot-swap continuity). For every controller state and every target kind
  different from the active one, right after \<open>switch_algorithm\<close> the active kind is the
  target and the new algorithm object has the \<open>cwnd\<close> and the \<open>ssthresh\<close> the outgoing
  object had.
\<close>

theorem switch_continuity:
  "new_algorithm \<noteq> algorithm_type s \<Longrightarrow>
     algorithm_type (switch_algorithm s new_algorithm now) = new_algorithm
     \<and> get_current_cwnd (algorithm (switch_algorithm s new_algorithm now))
         = get_current_cwnd (algorithm s)
     \<and> get_ssthresh (algorithm (switch_algorithm s new_algorithm now))
         = get_ssthresh (algorithm s)"
  by (cases new_algorithm)
     (simp_all add: switch_algorithm_def Let_def initialize_algorithm_def
        assign_cwnd_def assign_ssthresh_def get_current_cwnd_def get_ssthresh_def)

theorem switch_continuity_witness:
  "BBR \<noteq> algorithm_type ((controller_init RENO 0)
            \<lparr>algorithm := RenoAlgorithm (RenoAlgorithm_init\<lparr>reno.cwnd := 8, reno.ssthresh := 4\<rparr>)\<rparr>)
   \<and> get_current_cwnd (algorithm (switch_algorithm ((controller_init RENO 0)
            \<lparr>algorithm := RenoAlgorithm (RenoAlgorithm_init\<lparr>reno.cwnd := 8, reno.ssthresh := 4\<rparr>)\<rparr>)
          BBR 30)) = 8
   \<and> get_ssthresh (algorithm (switch_algorithm ((controller_init RENO 0)
            \<lparr>algorithm := RenoAlgorithm (RenoAlgorithm_init\<lparr>reno.cwnd := 8, reno.ssthresh := 4\<rparr>)\<rparr>)
          BBR 30)) = 4"
  using switch_continuity [of BBR "(controller_init RENO 0)
            \<lparr>algorithm := RenoAlgorithm (RenoAlgorithm_init\<lparr>reno.cwnd := 8, reno.ssthresh := 4\<rparr>)\<rparr>" 30]
  by (simp add: controller_init_def get_current_cwnd_def get_ssthresh_def)

text \<open>
  Claim C2 (Reno fast recovery) says that once 3 duplicate acks have been observed, the
  next ack puts Reno in \<open>fast_recovery\<close> with \<open>ssthresh = max (c / 2) 2\<close> and
  \<open>cwnd = ssthresh + 3\<close>. The code does not do so: \<open>RenoAlgorithm\<close> tests
  \<open>duplicate_acks >= 3\<close> but never counts a duplicate ack. A fresh Reno that receives
  ack 1, then the same ack three more times, then one more ack, is still in
  \<open>slow_start\<close> with \<open>cwnd = 6\<close>, \<open>ssthresh = 65535\<close> and \<open>duplicate_acks = 0\<close>, where the
  claim asks for \<open>fast_recovery\<close>, \<open>ssthresh = 2.5\<close> and \<open>cwnd = 5.5\<close>.
\<close>

theorem reno_duplicate_acks_not_counted:
  "map_sum id (\<lambda>r. (reno.state r, reno.cwnd r, reno.ssthresh r, reno.duplicate_acks r))
     (reno_run RenoAlgorithm_init [1, 1, 1, 1]) = Inr (slow_start, 5, 65535, 0)
   \<and> map_sum id (\<lambda>r. (reno.state r, reno.cwnd r, reno.ssthresh r, reno.duplicate_acks r))
     (reno_run RenoAlgorithm_init [1, 1, 1, 1, 1]) = Inr (slow_start, 6, 65535, 0)"
  by (simp add: reno_on_ack_received_def RenoAlgorithm_init_def Let_def)

text \<open>
  No run of acks helps: outside fast recovery and with the counter below 3, an ack keeps
  Reno outside fast recovery and leaves the counter as it was.
\<close>

lemma reno_on_ack_received_stays_out:
  assumes "reno.state r \<noteq> fast_recovery" and "reno.duplicate_acks r < 3"
    and "reno_on_ack_received r ack_num = Inr r'"
  shows "reno.state r' \<noteq> fast_recovery \<and> reno.duplicate_acks r' = reno.duplicate_acks r"
  using assms
  by (auto simp: reno_on_ack_received_def Let_def truediv_def split: if_splits)

lemma reno_run_stays_out:
  "reno.state r \<noteq> fast_recovery \<Longrightarrow> reno.duplicate_acks r < 3 \<Longrightarrow>
     reno_run r acks = Inr r' \<Longrightarrow>
     reno.state r' \<noteq> fast_recovery \<and> reno.duplicate_acks r' = reno.duplicate_acks r"
proof (induction acks arbitrary: r)
  case Nil
  then show ?case by simp
next
  case (Cons a acks)
  from Cons.prems(3) obtain r1 where
    r1: "reno_on_ack_received r a = Inr r1" and rest: "reno_run r1 acks = Inr r'"
    by (auto simp: ebind_eq_Inr)
  have "reno.state r1 \<noteq> fast_recovery \<and> reno.duplicate_acks r1 = reno.duplicate_acks r"
    using reno_on_ack_received_stays_out [OF Cons.prems(1,2) r1] .
  then show ?case
    using Cons.IH [OF _ _ rest] Cons.prems(2) by simp
qed

text \<open>
  The branches the claim describes are in the code, and do what it says, for a Reno
  object whose counter has been set to 3 from outside.
\<close>

lemma reno_fast_recovery_branches:
  "(reno.state r \<noteq> fast_recovery \<and> reno.duplicate_acks r \<ge> 3 \<longrightarrow>
      (\<exists>r'. reno_on_ack_received r ack_num = Inr r' \<and> reno.state r' = fast_recovery
        \<and> reno.ssthresh r' = max (reno.cwnd r / 2) 2
        \<and> reno.cwnd r' = reno.ssthresh r' + 3 \<and> reno.recover r' = ack_num))
   \<and> (reno.state r = fast_recovery \<and> ack_num \<le> reno.recover r \<longrightarrow>
      (\<exists>r'. reno_on_ack_received r ack_num = Inr r' \<and> reno.state r' = fast_recovery
        \<and> reno.cwnd r' = reno.cwnd r + 1))
   \<and> (reno.state r = fast_recovery \<and> ack_num > reno.recover r \<longrightarrow>
      (\<exists>r'. reno_on_ack_received r ack_num = Inr r' \<and> reno.state r' = congestion_avoidance
        \<and> reno.cwnd r' = reno.ssthresh r))"
  by (simp add: reno_on_ack_received_def enter_fast_recovery_def Let_def)

text \<open>
  Claim C3 (BBR window floor), as amended. After every sequence of ack events applied to
  a fresh BBR state, whatever their arguments, the run has raised nothing and
  \<open>cwnd \<ge> 4\<close>; and when the state is then \<open>PROBE_RTT\<close> and \<open>min_rtt\<close> is finite, \<open>cwnd\<close>
  is \<open>max 4 (bw_estimate * min_rtt)\<close>.
\<close>

theorem bbr_window_floor:
  "\<exists>b. bbr_run BBRAlgorithm_init evs = Inr b \<and> 4 \<le> bbr.cwnd b
     \<and> (bbr.state b = PROBE_RTT \<longrightarrow>
          (\<forall>m. min_rtt b = Fin m \<longrightarrow> bbr.cwnd b = max 4 (bw_estimate b * m)))"
proof -
  have run: "4 \<le> bbr.cwnd b0 \<Longrightarrow>
      (bbr.state b0 = PROBE_RTT \<longrightarrow>
          (\<forall>m. min_rtt b0 = Fin m \<longrightarrow> bbr.cwnd b0 = max 4 (bw_estimate b0 * m))) \<Longrightarrow>
      \<exists>b. bbr_run b0 evs = Inr b \<and> 4 \<le> bbr.cwnd b
        \<and> (bbr.state b = PROBE_RTT \<longrightarrow>
          (\<forall>m. min_rtt b = Fin m \<longrightarrow> bbr.cwnd b = max 4 (bw_estimate b * m)))" for b0
  proof (induction evs arbitrary: b0)
    case Nil
    then show ?case by simp
  next
    case (Cons e es)
    obtain b1 where b1: "bbr_on_ack_received b0 (ev_ack_num e) (ev_rtt e) (ev_delivered_bytes e)
        (ev_elapsed_time e) (ev_time e) = Inr b1"
      using bbr_on_ack_received_total by blast
    have "4 \<le> bbr.cwnd b1"
      using bbr_on_ack_received_floor [OF b1] Cons.prems(1) by simp
    moreover have "bbr.state b1 = PROBE_RTT \<longrightarrow>
          (\<forall>m. min_rtt b1 = Fin m \<longrightarrow> bbr.cwnd b1 = max 4 (bw_estimate b1 * m))"
      using bbr_on_ack_received_probe_rtt [OF b1] by blast
    ultimately show ?case
      using Cons.IH [of b1] b1 by simp
  qed
  show ?thesis
    by (rule run) (simp_all add: BBRAlgorithm_init_def)
qed

theorem bbr_window_floor_witness:
  "\<exists>b. bbr_run BBRAlgorithm_init
          [\<lparr>ev_ack_num = 1, ev_rtt = Some 0.05, ev_delivered_bytes = 0, ev_elapsed_time = 0,
            ev_time = 100\<rparr>,
           \<lparr>ev_ack_num = 2, ev_rtt = None, ev_delivered_bytes = 0, ev_elapsed_time = 0,
            ev_time = 111\<rparr>] = Inr b
     \<and> 4 \<le> bbr.cwnd b \<and> bbr.state b = PROBE_RTT \<and> min_rtt b = Fin 0.05
     \<and> bbr.cwnd b = max 4 (bw_estimate b * 0.05)"
proof -
  let ?evs = "[\<lparr>ev_ack_num = 1, ev_rtt = Some 0.05, ev_delivered_bytes = 0, ev_elapsed_time = 0,
            ev_time = 100\<rparr>,
           \<lparr>ev_ack_num = 2, ev_rtt = None, ev_delivered_bytes = 0, ev_elapsed_time = 0,
            ev_time = 111\<rparr>]"
  have st: "map_sum id (\<lambda>b. (bbr.state b, min_rtt b)) (bbr_run BBRAlgorithm_init ?evs)
      = Inr (PROBE_RTT, Fin 0.05)"
    by (simp add: bbr_defs Let_def)
  from bbr_window_floor [of ?evs] obtain b where
    b: "bbr_run BBRAlgorithm_init ?evs = Inr b" "4 \<le> bbr.cwnd b"
      "bbr.state b = PROBE_RTT \<longrightarrow>
          (\<forall>m. min_rtt b = Fin m \<longrightarrow> bbr.cwnd b = max 4 (bw_estimate b * m))"
    by blast
  from st b(1) have "bbr.state b = PROBE_RTT" "min_rtt b = Fin 0.05" by simp_all
  with b show ?thesis by blast
qed

text \<open>
  The claim as stated fails while \<open>min_rtt\<close> is still infinite: \<open>set_cwnd\<close> returns before
  it assigns. One ack without an RTT sample at clock reading 100 puts a fresh BBR in
  \<open>PROBE_RTT\<close> and leaves \<open>cwnd\<close> at its initial 10, where \<open>max(4.0, bw_estimate * min_rtt)\<close>
  is \<open>inf\<close>.
\<close>

theorem bbr_probe_rtt_window_counterexample:
  "(case bbr_run BBRAlgorithm_init
           [\<lparr>ev_ack_num = 1, ev_rtt = None, ev_delivered_bytes = 0, ev_elapsed_time = 0,
             ev_time = 100\<rparr>] of
      Inl _ \<Rightarrow> False
    | Inr b \<Rightarrow> bbr.state b = PROBE_RTT \<and> bbr.cwnd b = 10 \<and> probe_rtt_window b = PosInf
        \<and> Fin (bbr.cwnd b) \<noteq> probe_rtt_window b)"
  by (simp add: bbr_defs Let_def probe_rtt_window_def)

text \<open>
  Claim C4 (classifier decision order). \<open>detect_network_condition\<close> never raises. With
  fewer than 5 RTT samples it returns Good; otherwise it returns the first label that
  matches, in the order Lossy (loss rate above 0.02), HighBandwidthDelay (average of the
  last 10 RTT samples above 100 and average of the last 5 bandwidth samples above
  10 MB/s, which the code takes as \<open>10 * 1024 * 1024\<close>), Congested (average RTT above
  100), Excellent (average RTT below 20 and loss rate below 0.001), Good.
\<close>

theorem classifier_decision_order:
  "detect_network_condition s =
     Inr (if length (rtt_history s) < 5 then GOOD
          else if loss_rate_of s > 0.02 then LOSSY
          else if mean_last 10 (rtt_history s) > 100
                  \<and> mean_last 5 (bandwidth_history s) > 10 * 1024 * 1024 then HIGH_BW
          else if mean_last 10 (rtt_history s) > 100 then CONGESTED
          else if mean_last 10 (rtt_history s) < 20 \<and> loss_rate_of s < 0.001 then EXCELLENT
          else GOOD)"
proof (cases "length (rtt_history s) < 5")
  case True
  then show ?thesis by (simp add: detect_network_condition_def)
next
  case False
  then have ne: "rtt_history s \<noteq> []" by auto
  have rtt: "truediv (sum_list (lastn 10 (rtt_history s)))
      (real (min (length (rtt_history s)) 10)) = Inr (mean_last 10 (rtt_history s))"
    using recent_mean [OF ne, of 10] by simp
  have bw: "(if bandwidth_history s \<noteq> []
       then truediv (sum_list (lastn 5 (bandwidth_history s)))
              (real (min (length (bandwidth_history s)) 5))
       else Inr 0) = Inr (mean_last 5 (bandwidth_history s))"
  proof (cases "bandwidth_history s = []")
    case True
    then show ?thesis by (simp add: mean_last_def)
  next
    case False
    then show ?thesis using recent_mean [OF False, of 5] by simp
  qed
  show ?thesis
    unfolding detect_network_condition_def rtt bw get_packet_loss_rate_eq
    using False
    by (simp add: loss_threshold_high_def rtt_threshold_high_def
        bandwidth_threshold_high_def rtt_threshold_excellent_def loss_threshold_low_def)
qed

text \<open>
  Claim C5 (eager switch policy). \<open>should_switch_algorithm\<close> is false when the target is
  the active kind, false when less than 10 seconds have passed since the last switch,
  and true in every other case; replacing the recorded performance scores by any others
  does not change its result.
\<close>

theorem eager_switch_policy:
  "should_switch_algorithm s target now
     = (\<not> now - last_switch_time s < 10 \<and> target \<noteq> algorithm_type s)
   \<and> should_switch_algorithm (s\<lparr>algorithm_performance := p\<rparr>) target now
     = should_switch_algorithm s target now"
  by (simp add: should_switch_algorithm_def switch_cooldown_def Let_def)

text \<open>
  Claim C6 (cooldown invariant), as amended. In every run of one controller (acks with
  or without samples, losses, data sent, manual \<open>switch_algorithm\<close> calls), every switch
  that is not a manual one comes at least 10 seconds after the switch before it, manual
  or not, and the first one at least 10 seconds after the \<open>last_switch_time\<close> the run
  started with. Manual switches are not held back by the cooldown.
\<close>

theorem automatic_switch_cooldown:
  "auto_gaps_ok (last_switch_time s) (switch_log s evs)"
proof (induction evs arbitrary: s)
  case Nil
  then show ?case by simp
next
  case (Cons te es)
  obtain now e where te: "te = (now, e)" by (cases te)
  show ?case
  proof (cases "step s now e")
    case (Inl err)
    then show ?thesis by (simp add: te)
  next
    case (Inr s')
    show ?thesis
      using step_cases [OF Inr] Cons.IH [of s'] Inr
      by (simp add: te split: if_splits)
  qed
qed

theorem automatic_switch_cooldown_witness:
  "switch_log (controller_init RENO 0)
      [(20, Ack 1 (Some 30) (Some 5000)), (25, Ack 2 (Some 30) (Some 5000)),
       (26, ManualSwitch TAHOE), (27, Ack 3 (Some 30) (Some 5000)),
       (40, Ack 4 (Some 30) (Some 5000))]
     = [(20, False), (26, True), (40, False)]
   \<and> auto_gaps_ok (last_switch_time (controller_init RENO 0))
       (switch_log (controller_init RENO 0)
      [(20, Ack 1 (Some 30) (Some 5000)), (25, Ack 2 (Some 30) (Some 5000)),
       (26, ManualSwitch TAHOE), (27, Ack 3 (Some 30) (Some 5000)),
       (40, Ack 4 (Some 30) (Some 5000))])"
proof -
  have log: "switch_log (controller_init RENO 0)
      [(20, Ack 1 (Some 30) (Some 5000)), (25, Ack 2 (Some 30) (Some 5000)),
       (26, ManualSwitch TAHOE), (27, Ack 3 (Some 30) (Some 5000)),
       (40, Ack 4 (Some 30) (Some 5000))]
     = [(20, False), (26, True), (40, False)]"
    by (simp add: controller_defs Let_def)
  show ?thesis
    using log automatic_switch_cooldown [of "controller_init RENO 0"
      "[(20, Ack 1 (Some 30) (Some 5000)), (25, Ack 2 (Some 30) (Some 5000)),
       (26, ManualSwitch TAHOE), (27, Ack 3 (Some 30) (Some 5000)),
       (40, Ack 4 (Some 30) (Some 5000))]"]
    by simp
qed

text \<open>
  The claim as stated fails on manual switches: \<open>switch_algorithm\<close> does not consult the
  cooldown. Two manual calls at clock readings 100 and 101 both switch.
\<close>

theorem manual_switch_cooldown_counterexample:
  "switch_log (controller_init RENO 0)
      [(100, ManualSwitch CUBIC), (101, ManualSwitch TAHOE)] = [(100, True), (101, True)]
   \<and> \<not> gaps_ok (map fst (switch_log (controller_init RENO 0)
      [(100, ManualSwitch CUBIC), (101, ManualSwitch TAHOE)]))"
  by (simp add: controller_defs Let_def)

text \<open>
  Claim C7 (sample hygiene) says that a non-positive \<open>rtt\<close> leaves \<open>min_rtt\<close> and its
  stamp unchanged. The code does not do so for a negative \<open>rtt\<close>: the guard \<open>if rtt:\<close>
  lets it through, where the guard of the other sample is \<open>elapsed_time > 0\<close>. A fresh
  BBR that takes the sample \<open>rtt = 0.05\<close> at clock reading 100 has \<open>min_rtt = 0.05\<close>
  stamped 100; the next ack, at 101 with \<open>rtt = -0.05\<close>, makes \<open>min_rtt = -0.05\<close>
  stamped 101, and the window drops from 100000 to the floor 4.
\<close>

theorem bbr_negative_rtt_overwrites_min_rtt:
  "map_sum id (\<lambda>b. (min_rtt b, rtprop_stamp b, bbr.cwnd b))
     (bbr_run BBRAlgorithm_init
        [\<lparr>ev_ack_num = 1, ev_rtt = Some 0.05, ev_delivered_bytes = 0, ev_elapsed_time = 0,
          ev_time = 100\<rparr>]) = Inr (Fin 0.05, 100, 100000)
   \<and> map_sum id (\<lambda>b. (min_rtt b, rtprop_stamp b, bbr.cwnd b))
     (bbr_run BBRAlgorithm_init
        [\<lparr>ev_ack_num = 1, ev_rtt = Some 0.05, ev_delivered_bytes = 0, ev_elapsed_time = 0,
          ev_time = 100\<rparr>,
         \<lparr>ev_ack_num = 2, ev_rtt = Some (- 0.05), ev_delivered_bytes = 0, ev_elapsed_time = 0,
          ev_time = 101\<rparr>]) = Inr (Fin (- 0.05), 101, 4)"
  by (simp add: bbr_defs Let_def)

text \<open>
  The rest of the claim holds. \<open>on_ack_received\<close> raises nothing; an \<open>rtt\<close> that is absent
  or 0 leaves \<open>min_rtt\<close> unchanged, and the stamp too unless the event ends a \<open>PROBE_RTT\<close>
  phase, which restamps with or without a sample; an \<open>elapsed_time\<close> that is not
  positive leaves \<open>bw_estimate\<close> unchanged.
\<close>

lemma bbr_falsy_sample_ignored:
  "\<exists>b'. bbr_on_ack_received b a r d e now = Inr b'
     \<and> (\<not> truthy r \<longrightarrow>
          min_rtt b' = min_rtt b
          \<and> rtprop_stamp b' =
              (if bbr.state b = PROBE_RTT \<and> probe_rtt_done_stamp b \<le> now then now
               else rtprop_stamp b))
     \<and> (e \<le> 0 \<longrightarrow> bw_estimate b' = bw_estimate b)"
proof -
  define b1 where "b1 = (if truthy r then update_min_rtt b (the r) now else b)"
  obtain b' where res: "bbr_on_ack_received b a r d e now = Inr b'"
    using bbr_on_ack_received_total by blast
  from res obtain b2 where
    b2: "(if e > 0 then update_bandwidth_estimate b1 d e else Inr b1) = Inr b2" and
    b': "b' = (let b3 = bbr_state_machine b2 now;
                  b4 = check_probe_rtt b3 now;
                  b5 = (if bbr.state b4 = PROBE_RTT then handle_probe_rtt b4 now else b4);
                  b6 = set_cwnd (set_pacing_rate b5)
              in b6\<lparr>packet_count := packet_count b6 + 1\<rparr>)"
    unfolding bbr_on_ack_received_def b1_def [symmetric] Let_def ebind_eq_Inr by auto
  define b3 where "b3 = bbr_state_machine b2 now"
  have b2_frame: "min_rtt b2 = min_rtt b1" "rtprop_stamp b2 = rtprop_stamp b1"
    "bbr.state b2 = bbr.state b1" "probe_rtt_done_stamp b2 = probe_rtt_done_stamp b1"
    using b2 update_bandwidth_estimate_frame [of b1 d e b2] by (auto split: if_splits)
  have b3_frame: "min_rtt b3 = min_rtt b1" "rtprop_stamp b3 = rtprop_stamp b1"
    "probe_rtt_done_stamp b3 = probe_rtt_done_stamp b1"
    "bbr.state b3 = PROBE_RTT \<longleftrightarrow> bbr.state b1 = PROBE_RTT"
    by (simp_all add: b3_def bbr_state_machine_frame bbr_state_machine_probe_rtt b2_frame)
  have rtt_part: "min_rtt b' = min_rtt b1
      \<and> rtprop_stamp b' =
          (if bbr.state b1 = PROBE_RTT \<and> probe_rtt_done_stamp b1 \<le> now then now
           else rtprop_stamp b1)"
    unfolding b' Let_def b3_def [symmetric]
    using b3_frame
    by (simp add: set_cwnd_frame set_pacing_rate_frame check_probe_rtt_def
        handle_probe_rtt_def Let_def bbr_probe_rtt_time_def)
  have bw_part: "e \<le> 0 \<Longrightarrow> bw_estimate b' = bw_estimate b"
  proof -
    assume "e \<le> 0"
    then have "b2 = b1" using b2 by simp
    then have "bw_estimate b2 = bw_estimate b"
      by (simp add: b1_def update_min_rtt_frame)
    then show ?thesis
      unfolding b' Let_def
      by (simp add: set_cwnd_frame set_pacing_rate_frame handle_probe_rtt_frame
          check_probe_rtt_frame bbr_state_machine_frame)
  qed
  have "\<not> truthy r \<Longrightarrow> b1 = b" by (simp add: b1_def)
  with res rtt_part bw_part show ?thesis by auto
qed

text \<open>
  Claim C8 (Cubic loss response). For every Cubic state with \<open>cwnd = c\<close>, after
  \<open>on_loss_detected\<close> we have \<open>wmax = c\<close>, \<open>cwnd = c * 0.7\<close> and \<open>ssthresh\<close> equal to the
  new \<open>cwnd\<close>.
\<close>

theorem cubic_loss_response:
  "cubic.wmax (cubic_on_loss_detected a now) = cubic.cwnd a
   \<and> cubic.cwnd (cubic_on_loss_detected a now) = cubic.cwnd a * 0.7
   \<and> cubic.ssthresh (cubic_on_loss_detected a now) = cubic.cwnd (cubic_on_loss_detected a now)"
  by (simp add: cubic_on_loss_detected_def cubic_beta_def Let_def)

text \<open>
  Claim C9 (loss-rate totality). In every state a controller can reach,
  \<open>get_packet_loss_rate\<close> raises nothing, returns 0 when \<open>packets_sent = 0\<close> and
  \<open>packets_lost / packets_sent\<close> otherwise, and its result is not negative.
\<close>

theorem loss_rate_total:
  "reachable s \<Longrightarrow>
     \<exists>r. get_packet_loss_rate s = Inr r
       \<and> r = (if packets_sent s = 0 then 0
              else real_of_int (packets_lost s) / real_of_int (packets_sent s))
       \<and> 0 \<le> r"
  using reachable_packets [of s]
  by (simp add: get_packet_loss_rate_def truediv_def)

theorem loss_rate_total_witness:
  "reachable (on_data_sent (controller_init RENO 0) 1024)
   \<and> (\<exists>r. get_packet_loss_rate (on_data_sent (controller_init RENO 0) 1024) = Inr r
       \<and> r = 0 \<and> 0 \<le> r)"
proof -
  have "step (controller_init RENO 0) 1 (DataSent 1024)
          = Inr (on_data_sent (controller_init RENO 0) 1024)"
    by (simp add: step_def)
  then have r: "reachable (on_data_sent (controller_init RENO 0) 1024)"
    using reachable_init reachable_step by blast
  show ?thesis
    using r loss_rate_total [OF r]
    by (simp add: on_data_sent_def controller_init_def)
qed

text \<open>
  Claim C10 (adaptive path gated on both samples). When \<open>rtt\<close> or \<open>bandwidth\<close> is absent
  or 0, a call of \<open>on_ack_received\<close> that returns leaves the RTT history, the bandwidth
  history, the performance records, \<open>packets_sent\<close>, \<open>packets_lost\<close>, the active kind and
  \<open>last_switch_time\<close> unchanged; the new algorithm object is the old one after its own
  \<open>on_ack_received(ack_num)\<close>.
\<close>

theorem ack_without_samples_frame:
  assumes "\<not> (truthy r \<and> truthy b)" and "on_ack_received s a r b now = Inr s'"
  shows "rtt_history s' = rtt_history s \<and> bandwidth_history s' = bandwidth_history s
    \<and> algorithm_performance s' = algorithm_performance s
    \<and> packets_sent s' = packets_sent s \<and> packets_lost s' = packets_lost s
    \<and> algorithm_type s' = algorithm_type s \<and> last_switch_time s' = last_switch_time s
    \<and> algorithm_on_ack (algorithm s) a now = Inr (algorithm s')"
  using assms
  unfolding on_ack_received_def Let_def ebind_eq_Inr
  by auto

theorem ack_without_samples_frame_witness:
  "\<not> (truthy None \<and> truthy (Some 5000))
   \<and> on_ack_received (controller_init RENO 0) 1 None (Some 5000) 20
       = Inr ((controller_init RENO 0)
               \<lparr>algorithm := RenoAlgorithm (RenoAlgorithm_init\<lparr>reno.cwnd := 2\<rparr>)\<rparr>)
   \<and> algorithm_type ((controller_init RENO 0)
               \<lparr>algorithm := RenoAlgorithm (RenoAlgorithm_init\<lparr>reno.cwnd := 2\<rparr>)\<rparr>) = RENO
   \<and> last_switch_time ((controller_init RENO 0)
               \<lparr>algorithm := RenoAlgorithm (RenoAlgorithm_init\<lparr>reno.cwnd := 2\<rparr>)\<rparr>) = 0
   \<and> rtt_history ((controller_init RENO 0)
               \<lparr>algorithm := RenoAlgorithm (RenoAlgorithm_init\<lparr>reno.cwnd := 2\<rparr>)\<rparr>) = []"
proof -
  have n: "\<not> (truthy None \<and> truthy (Some 5000))"
    by (simp add: truthy_def)
  have r: "on_ack_received (controller_init RENO 0) 1 None (Some 5000) 20
       = Inr ((controller_init RENO 0)
               \<lparr>algorithm := RenoAlgorithm (RenoAlgorithm_init\<lparr>reno.cwnd := 2\<rparr>)\<rparr>)"
    by (simp add: on_ack_received_def truthy_def controller_init_def initialize_algorithm_def
        algorithm_on_ack_def reno_on_ack_received_def RenoAlgorithm_init_def Let_def)
  show ?thesis
    using n r ack_without_samples_frame [OF n r]
    by (simp add: controller_init_def)
qed

end
